theory Spec2Isabelle
  imports
    Main
    "HOL-Library.Char_ord"
    "HOL-Library.List_Lexorder"
    "HOL-Library.Multiset"
    "HOL-Library.Signed_Division"
begin

section \<open>The local system of systems/local.go\<close>

text \<open>
  A shallow embedding of \<^verbatim>\<open>systems/local.go\<close>: the registry actor
  (\<^verbatim>\<open>manageDataSources\<close>), the resolver set-up functions, the ASN cache loader, the
  graph back-end initialiser, \<^verbatim>\<open>Shutdown\<close> and \<^verbatim>\<open>NewLocalSystem\<close>.
  Collaborators of other packages (resolvers, graph, config, net) are parameters of the
  functions that call them, or small models marked as such.
\<close>

subsection \<open>Data sources and the registry actor\<close>

text \<open>
  A \<^verbatim>\<open>service.Service\<close> is used through \<^verbatim>\<open>Start\<close>, \<^verbatim>\<open>Stop\<close> and
  \<^verbatim>\<open>String\<close>. A service is its name together with an identity that tells two
  services of the same name apart.
\<close>

datatype service = Service (srv_String: string) (srv_id: nat)

text \<open>
  The three channels the actor selects on. A query carries a reply channel; the model
  returns the snapshots sent on the reply channels, in the order of the queries.
\<close>

datatype message = OnDone | OnAddSource service | OnAllSources

text \<open>
  \<^verbatim>\<open>sort.Slice(dataSources, func(i, j) { return dataSources[i].String() < dataSources[j].String() })\<close>:
  Go compares strings bytewise, which is the lexicographic order of byte lists.
  \<^verbatim>\<open>sort.Slice\<close> is not stable, so the order of services of equal name is the sorting
  algorithm's; the sequence of names of the result does not depend on it.
\<close>

definition sort_Slice :: "service list \<Rightarrow> service list" where
  "sort_Slice ds = sort_key srv_String ds"

text \<open>
  The loop of \<^verbatim>\<open>manageDataSources\<close> over the messages in their order of arrival,
  from the local variable \<^verbatim>\<open>dataSources\<close>. It returns at the done signal; with no
  message left it waits in the select.
\<close>

fun manageDataSources :: "service list \<Rightarrow> message list \<Rightarrow> service list list" where
  "manageDataSources dataSources [] = []"
| "manageDataSources dataSources (OnDone # ms) = []"
| "manageDataSources dataSources (OnAddSource add # ms) =
     manageDataSources (sort_Slice (dataSources @ [add])) ms"
| "manageDataSources dataSources (OnAllSources # ms) =
     dataSources # manageDataSources dataSources ms"

text \<open>
  For stating what a reply holds: the sources carried by the add messages of a message
  list, in their order of arrival.
\<close>

fun added :: "message list \<Rightarrow> service list" where
  "added [] = []"
| "added (OnAddSource s # ms) = s # added ms"
| "added (m # ms) = added ms"

subsection \<open>The output directory\<close>

datatype error = Error string

text \<open>
  \<^verbatim>\<open>setupOutputDirectory\<close>: \<open>path\<close> is the value of
  \<^verbatim>\<open>config.OutputDirectory(l.cfg.Dir)\<close> and \<open>MkdirAll\<close> the outcome of
  \<^verbatim>\<open>os.MkdirAll(path, 0755)\<close>. The result is the returned error, \<open>None\<close> for nil.
\<close>

definition setupOutputDirectory :: "string \<Rightarrow> (string \<Rightarrow> error option) \<Rightarrow> error option" where
  "setupOutputDirectory path MkdirAll =
     (if path = [] then None
      else (case MkdirAll path of
              Some err \<Rightarrow> None
            | None \<Rightarrow> None))"

subsection \<open>Machine integers and panics\<close>

datatype panic = DivideByZero | NilDereference | CloseOfClosedChannel

text \<open>
  Go's \<^verbatim>\<open>int\<close> on a 64-bit platform: an integer kept in two's complement on 64 bits.
  \<open>int64\<close> is the wrap-around of an arithmetic result.
\<close>

definition int64 :: "int \<Rightarrow> int" where
  "int64 x = signed_take_bit 63 x"

text \<open>
  Go's integer division \<^verbatim>\<open>a / b\<close>: it truncates towards zero and panics at a zero
  divisor.
\<close>

definition quo :: "int \<Rightarrow> int \<Rightarrow> panic + int" where
  "quo a b = (if b = 0 then Inl DivideByZero else Inr (int64 (a sdiv b)))"

subsection \<open>Configuration\<close>

record Database =
  System :: string
  URL :: string
  Options :: string

text \<open>The fields of \<^verbatim>\<open>config.Config\<close> that local.go reads and writes.\<close>

record Config =
  Resolvers :: "string list"
  MaxDNSQueries :: int
  Dir :: string
  GraphDBs :: "Database list"

subsection \<open>Resolvers\<close>

text \<open>
  Modelled from the spec: the package \<^verbatim>\<open>resolvers\<close> is not in the sources. The spec
  gives \<^verbatim>\<open>construct(address, rate, logger) -> handle|nil\<close>, a handle being a network
  address with a per-resolver query-rate limit, and
  \<^verbatim>\<open>composePool(tier, timeout, fallback, trustLevel, logger) -> pool|nil\<close>. When a
  constructor returns nil and whether the capability check fails is a parameter
  (\<open>base_ok\<close>, \<open>pool_ok\<close>, \<open>ClientSubnetCheck_err\<close>). A timeout is in seconds.
\<close>

datatype resolver = BaseResolver (res_address: string) (res_rate: int)

datatype pool =
  ResolverPool (members: "resolver list") (delay: nat) (baseline: "pool option") (partnum: nat)

record resolvers_pkg =
  base_ok :: "string \<Rightarrow> int \<Rightarrow> bool"
  pool_ok :: "resolver list \<Rightarrow> pool option \<Rightarrow> bool"
  ClientSubnetCheck_err :: "string \<Rightarrow> bool"

definition NewBaseResolver :: "resolvers_pkg \<Rightarrow> string \<Rightarrow> int \<Rightarrow> resolver option" where
  "NewBaseResolver R addr rate =
     (if base_ok R addr rate then Some (BaseResolver addr rate) else None)"

definition NewResolverPool ::
  "resolvers_pkg \<Rightarrow> resolver list \<Rightarrow> nat \<Rightarrow> pool option \<Rightarrow> nat \<Rightarrow> pool option" where
  "NewResolverPool R rs d b p =
     (if pool_ok R rs b then Some (ResolverPool rs d b p) else None)"

text \<open>
  \<^verbatim>\<open>customResolverSetup(cfg, max)\<close>. \<open>DefaultQueriesPerBaselineResolver\<close> is the constant
  of that name of the package \<^verbatim>\<open>config\<close>, which the sources do not give. The function
  writes \<^verbatim>\<open>cfg.MaxDNSQueries\<close> through the pointer, so the model returns the
  configuration, then the local \<^verbatim>\<open>trusted\<close> (the resolvers constructed) and the pool.
\<close>

definition customResolverSetup ::
  "resolvers_pkg \<Rightarrow> int \<Rightarrow> Config \<Rightarrow> int
     \<Rightarrow> panic + (Config \<times> resolver list \<times> pool option)" where
  "customResolverSetup R DefaultQueriesPerBaselineResolver cfg mx =
     (let num = int (length (Resolvers cfg));
          num = (if num > mx then mx else num);
          cfg = (if MaxDNSQueries cfg = 0
                 then cfg\<lparr>MaxDNSQueries := int64 (num * DefaultQueriesPerBaselineResolver)\<rparr>
                 else if MaxDNSQueries cfg < num then cfg\<lparr>MaxDNSQueries := num\<rparr>
                 else cfg)
      in case quo (MaxDNSQueries cfg) num of
           Inl p \<Rightarrow> Inl p
         | Inr rate \<Rightarrow>
             (let trusted = List.map_filter (\<lambda>addr. NewBaseResolver R addr rate) (Resolvers cfg)
              in Inr (cfg, trusted, NewResolverPool R trusted 2 None 1)))"

subsection \<open>Probing public resolvers\<close>

text \<open>
  Go's \<^verbatim>\<open>net.JoinHostPort\<close>: a host with a colon is put in brackets. Whether \<^verbatim>\<open>net.SplitHostPort\<close> fails on an address is a parameter of
  \<open>setupResolvers\<close>.
\<close>

definition JoinHostPort :: "string \<Rightarrow> string \<Rightarrow> string" where
  "JoinHostPort host port =
     (if CHR '':'' \<in> set host
      then ''['' @ host @ '']:'' @ port
      else host @ '':'' @ port)"

text \<open>
  The goroutine spawned for one address: the values it sends on the channel, in order.
  After a successful check and a constructed resolver it sends the resolver, and then,
  in every case, it sends nil.
\<close>

definition probe :: "resolvers_pkg \<Rightarrow> int \<Rightarrow> string \<Rightarrow> resolver option list" where
  "probe R rate ip =
     (if \<not> ClientSubnetCheck_err R ip
      then (case NewBaseResolver R ip rate of Some n \<Rightarrow> [Some n] | None \<Rightarrow> [])
      else [])
     @ [None]"

text \<open>
  The order in which the sends of the goroutines reach the channel \<^verbatim>\<open>finished\<close>.
  \<open>pending\<close> holds what each goroutine has still to send; the schedule names the
  goroutine whose next send is delivered; when the schedule is used up, the goroutines
  finish in the order of their creation. The channel is first-in first-out, so this is
  also the order in which values are received.
\<close>

fun deliver :: "'a list list \<Rightarrow> nat list \<Rightarrow> 'a list" where
  "deliver pending [] = concat pending"
| "deliver pending (i # sched) =
     (if i < length pending
      then (case pending ! i of
              [] \<Rightarrow> deliver pending sched
            | m # ms \<Rightarrow> m # deliver (pending[i := ms]) sched)
      else deliver pending sched)"

text \<open>
  The body of the receiving loop, for the values received, on the locals
  \<^verbatim>\<open>count\<close> (here \<open>cnt\<close>) and \<^verbatim>\<open>resolvers\<close>; the third component
  collects the handles on which \<^verbatim>\<open>Stop\<close> is called.
\<close>

fun drain ::
  "int \<Rightarrow> resolver option list \<Rightarrow> int \<times> resolver list \<times> resolver list
     \<Rightarrow> int \<times> resolver list \<times> resolver list" where
  "drain mx [] st = st"
| "drain mx (None # rs) st = drain mx rs st"
| "drain mx (Some r # rs) (cnt, resolvers, stopped) =
     (if cnt < mx
      then drain mx rs (cnt + 1, resolvers @ [r], stopped)
      else drain mx rs (cnt, resolvers, stopped @ [r]))"

text \<open>
  What a call of \<open>setupResolvers\<close> leaves: the slice it returns (nil is the empty
  slice), the handles it stopped, and the values sent by the goroutines that the loop
  never receives.
\<close>

record probing =
  accepted :: "resolver list"
  stopped :: "resolver list"
  unread :: "resolver option list"

text \<open>
  \<^verbatim>\<open>setupResolvers(addrs, max, rate, log)\<close>. The loop receives exactly
  \<^verbatim>\<open>len(addrs)\<close> values.
\<close>

definition setupResolvers ::
  "resolvers_pkg \<Rightarrow> (string \<Rightarrow> bool) \<Rightarrow> nat list \<Rightarrow> string list \<Rightarrow> int \<Rightarrow> int \<Rightarrow> probing" where
  "setupResolvers R SplitHostPort_err sched addrs mx rate =
     (if length addrs \<le> 0 then \<lparr>accepted = [], stopped = [], unread = []\<rparr>
      else
        (let sends = map (\<lambda>addr. probe R rate
                            (if SplitHostPort_err addr then JoinHostPort addr ''53'' else addr))
                       addrs;
             finished = deliver sends sched;
             l = length addrs;
             (cnt, resolvers, stopped) = drain mx (take l finished) (0, [], [])
         in \<lparr>accepted = resolvers, stopped = stopped, unread = drop l finished\<rparr>))"

text \<open>
  \<^verbatim>\<open>finished := make(chan resolvers.Resolver, 10)\<close>: once the loop has ended, ten
  further sends complete into the buffer; every other send blocks for ever.
\<close>

definition blocked_sends :: "probing \<Rightarrow> nat" where
  "blocked_sends p = length (unread p) - 10"

subsection \<open>The ASN cache\<close>

text \<open>
  An IPv4 address (Go's \<^verbatim>\<open>net.IP\<close>, a slice of bytes) as the number its four bytes
  spell; \<^verbatim>\<open>net.IPv4(a, b, c, d)\<close> builds one. IPv6 addresses are not modelled.
\<close>

type_synonym IP = nat


text \<open>Decimal digits of a number, as \<^verbatim>\<open>strconv.Itoa\<close> prints them.\<close>

definition digit_of :: "nat \<Rightarrow> char" where
  "digit_of n = ''0123456789'' ! n"

function Itoa :: "nat \<Rightarrow> string" where
  "Itoa n = (if n < 10 then [digit_of n] else Itoa (n div 10) @ [digit_of (n mod 10)])"
  by pat_completeness auto
termination
  by (relation "measure id") auto

declare Itoa.simps [simp del]

text \<open>\<^verbatim>\<open>net.IP.String\<close> of an IPv4 address: the dotted quad.\<close>

definition IP_String :: "IP \<Rightarrow> string" where
  "IP_String ip =
     Itoa (ip div 2 ^ 24 mod 256) @ ''.'' @ Itoa (ip div 2 ^ 16 mod 256) @ ''.''
     @ Itoa (ip div 2 ^ 8 mod 256) @ ''.'' @ Itoa (ip mod 256)"

text \<open>
  \<^verbatim>\<open>net.IPNet\<close>: the network address, and the mask as its number of leading ones, which
  is what \<^verbatim>\<open>cidr.Mask.Size()\<close> returns first. \<^verbatim>\<open>IPNet.String\<close> prints address, slash,
  mask length.
\<close>

record IPNet =
  IP :: IP
  Mask_ones :: nat

definition IPNet_String :: "IPNet \<Rightarrow> string" where
  "IPNet_String n = IP_String (IP n) @ ''/'' @ Itoa (Mask_ones n)"

text \<open>
  A record of \<^verbatim>\<open>config.GetIP2ASNData\<close> with the fields local.go reads
  (\<^verbatim>\<open>FirstIP\<close>, \<^verbatim>\<open>LastIP\<close>, \<^verbatim>\<open>ASN\<close>, \<^verbatim>\<open>CC\<close>, \<^verbatim>\<open>Description\<close>), and
  \<^verbatim>\<open>requests.ASNRequest\<close> with the fields local.go sets.
\<close>

record IPRange =
  FirstIP :: IP
  LastIP :: IP
  range_ASN :: int
  range_CC :: string
  range_Description :: string

record ASNRequest =
  Address :: string
  ASN :: int
  CC :: string
  Prefix :: string
  Description :: string

text \<open>
  Modelled from the spec: \<^verbatim>\<open>amassnet.ASNCache\<close> and its \<^verbatim>\<open>Update\<close> are not in the
  sources. The spec: each remaining record is upserted into the cache keyed by its CIDR.
\<close>

type_synonym ASNCache = "string \<rightharpoonup> ASNRequest"

definition Update :: "ASNCache \<Rightarrow> ASNRequest \<Rightarrow> ASNCache" where
  "Update c req = c(Prefix req \<mapsto> req)"

text \<open>The \<^verbatim>\<open>requests.ASNRequest\<close> literal built in \<^verbatim>\<open>loadCacheData\<close>.\<close>

definition request :: "IPRange \<Rightarrow> IPNet \<Rightarrow> ASNRequest" where
  "request r cidr =
     \<lparr>Address = IP_String (FirstIP r), ASN = range_ASN r, CC = range_CC r,
      Prefix = IPNet_String cidr, Description = range_Description r\<rparr>"

text \<open>
  The loop of \<^verbatim>\<open>loadCacheData\<close> over the fetched ranges, and the function itself:
  \<open>GetIP2ASNData\<close> is the outcome of \<^verbatim>\<open>config.GetIP2ASNData()\<close>, \<open>Range2CIDR\<close> the
  function \<^verbatim>\<open>amassnet.Range2CIDR\<close> (nil is \<open>None\<close>), \<open>c\<close> the cache \<^verbatim>\<open>l.cache\<close>.
\<close>

fun loadRanges :: "(IP \<Rightarrow> IP \<Rightarrow> IPNet option) \<Rightarrow> IPRange list \<Rightarrow> ASNCache \<Rightarrow> ASNCache" where
  "loadRanges Range2CIDR [] c = c"
| "loadRanges Range2CIDR (r # ranges) c =
     (case Range2CIDR (FirstIP r) (LastIP r) of
        None \<Rightarrow> loadRanges Range2CIDR ranges c
      | Some cidr \<Rightarrow>
          if Mask_ones cidr = 0 then loadRanges Range2CIDR ranges c
          else loadRanges Range2CIDR ranges (Update c (request r cidr)))"

definition loadCacheData ::
  "(error + IPRange list) \<Rightarrow> (IP \<Rightarrow> IP \<Rightarrow> IPNet option) \<Rightarrow> ASNCache \<Rightarrow> error option \<times> ASNCache" where
  "loadCacheData GetIP2ASNData Range2CIDR c =
     (case GetIP2ASNData of
        Inl err \<Rightarrow> (Some err, c)
      | Inr ranges \<Rightarrow> (None, loadRanges Range2CIDR ranges c))"

text \<open>
  Modelled from the spec: \<^verbatim>\<open>amassnet.Range2CIDR\<close> is not in the sources. The spec: for
  each record, derive the smallest CIDR block spanning [first IP, last IP]; records that
  cannot be expressed as a CIDR are skipped. \<open>host_bits a b\<close> is the least \<open>k\<close> for which
  \<open>a\<close> and \<open>b\<close> lie in the same aligned block of \<open>2 ^ k\<close> addresses; a range whose last
  address is below its first has no block.
\<close>

function host_bits :: "nat \<Rightarrow> nat \<Rightarrow> nat" where
  "host_bits a b = (if a = b then 0 else Suc (host_bits (a div 2) (b div 2)))"
  by pat_completeness auto
termination
  by (relation "measure (\<lambda>(a, b). a + b)") (auto intro: add_less_le_mono add_le_less_mono)

declare host_bits.simps [simp del]

definition Range2CIDR :: "IP \<Rightarrow> IP \<Rightarrow> IPNet option" where
  "Range2CIDR firstIP lastIP =
     (if lastIP < firstIP then None
      else (let k = host_bits firstIP lastIP
            in Some \<lparr>IP = firstIP div 2 ^ k * 2 ^ k, Mask_ones = 32 - k\<rparr>))"

subsection \<open>The public resolvers\<close>

text \<open>
  The variables and constants of the package \<^verbatim>\<open>config\<close> that the resolver set-up
  reads; the sources do not give their values.
\<close>

record config_pkg =
  PublicResolvers :: "string list"
  DefaultBaselineResolvers :: "string list"
  DefaultQueriesPerPublicResolver :: int
  DefaultQueriesPerBaselineResolver :: int

text \<open>
  \<^verbatim>\<open>publicResolverSetup(cfg, max)\<close>. The model returns the configuration written
  through the pointer, what the probing left, and the pool.
\<close>

definition publicResolverSetup ::
  "resolvers_pkg \<Rightarrow> config_pkg \<Rightarrow> (string \<Rightarrow> bool) \<Rightarrow> nat list \<Rightarrow> Config \<Rightarrow> int
     \<Rightarrow> Config \<times> probing \<times> pool option" where
  "publicResolverSetup R C SplitHostPort_err sched cfg mx =
     (let num = int (length (PublicResolvers C));
          num = (if num > mx then mx else num);
          cfg = (if MaxDNSQueries cfg = 0
                 then cfg\<lparr>MaxDNSQueries := int64 (num * DefaultQueriesPerPublicResolver C)\<rparr>
                 else if MaxDNSQueries cfg < num then cfg\<lparr>MaxDNSQueries := num\<rparr>
                 else cfg);
          trusted = List.map_filter
                      (\<lambda>addr. NewBaseResolver R addr (DefaultQueriesPerBaselineResolver C))
                      (DefaultBaselineResolvers C);
          baseline = NewResolverPool R trusted 1 None 1;
          r = setupResolvers R SplitHostPort_err sched (PublicResolvers C) mx
                (DefaultQueriesPerPublicResolver C)
      in (cfg, r, NewResolverPool R (accepted r) 2 baseline 2))"

subsection \<open>Graph back ends\<close>

text \<open>
  Modelled from the spec: the package \<^verbatim>\<open>graph\<close> is not in the sources. The spec gives
  \<^verbatim>\<open>construct(systemKind, url, options) -> connection|nil\<close>, the wrapper's
  \<^verbatim>\<open>construct(connection) -> graph|nil\<close>, \<^verbatim>\<open>seedFromCache(cache)\<close> (best effort),
  \<^verbatim>\<open>close()\<close> and \<^verbatim>\<open>describe() -> string\<close>. A pointer that may be nil is an option.
  When a constructor returns nil, what \<^verbatim>\<open>String\<close> does for a receiver (nil included)
  and what seeding does to the cache are parameters.
\<close>

datatype CayleyGraph = CayleyGraph (cayley_db: Database)

datatype Graph = Graph (graph_db: CayleyGraph)

record graph_pkg =
  NewCayleyGraph_ok :: "Database \<Rightarrow> bool"
  NewGraph_ok :: "CayleyGraph \<Rightarrow> bool"
  Graph_String :: "Graph option \<Rightarrow> panic + string"
  ASNCacheFill :: "Graph \<Rightarrow> ASNCache \<Rightarrow> ASNCache"

definition NewCayleyGraph :: "graph_pkg \<Rightarrow> Database \<Rightarrow> CayleyGraph option" where
  "NewCayleyGraph G db = (if NewCayleyGraph_ok G db then Some (CayleyGraph db) else None)"

definition NewGraph :: "graph_pkg \<Rightarrow> CayleyGraph \<Rightarrow> Graph option" where
  "NewGraph G cayley = (if NewGraph_ok G cayley then Some (Graph cayley) else None)"


subsection \<open>The system and its shutdown\<close>

text \<open>
  What the tear-down does to the collaborators, in order: \<^verbatim>\<open>Stop\<close> on a resolver,
  \<^verbatim>\<open>Stop\<close> on a data source, \<^verbatim>\<open>close(l.done)\<close>, \<^verbatim>\<open>Close\<close> on a graph,
  \<^verbatim>\<open>Stop\<close> on the pool.
\<close>

datatype event =
  ResolverStop resolver | SourceStop service | DoneClosed | GraphClose Graph | PoolStop pool

text \<open>
  The goroutine of \<^verbatim>\<open>manageDataSources\<close>: not started yet, running with its local
  \<^verbatim>\<open>dataSources\<close>, or returned after the done signal.
\<close>

datatype actor = NotStarted | Running "service list" | Returned

text \<open>
  The struct \<^verbatim>\<open>LocalSystem\<close>. Of the channels, \<open>done_closed\<close> says whether
  \<^verbatim>\<open>l.done\<close> is closed and \<open>actor\<close> stands for the goroutine that serves
  \<^verbatim>\<open>l.addSource\<close> and \<^verbatim>\<open>l.allSources\<close>; \<open>events\<close> is the trace of the tear-down.
\<close>

record LocalSystem =
  cfg :: Config
  pool :: pool
  graphs :: "Graph list"
  cache :: ASNCache
  done_closed :: bool
  doneAlreadyClosed :: bool
  actor :: actor
  events :: "event list"

text \<open>
  A call returns a value, blocks for ever in the given state, or panics.
\<close>

datatype 'a outcome = Returns 'a | Blocks LocalSystem | Panics panic

text \<open>
  \<^verbatim>\<open>AddSource\<close> sends on the unbuffered \<^verbatim>\<open>l.addSource\<close>: the send completes when
  the actor receives, and the actor appends and sorts. \<^verbatim>\<open>DataSources\<close> sends a reply
  channel on \<^verbatim>\<open>l.allSources\<close> and receives from it: only the running actor ever
  replies.
\<close>

definition AddSource :: "LocalSystem \<Rightarrow> service \<Rightarrow> (error option \<times> LocalSystem) outcome" where
  "AddSource l src =
     (case actor l of
        Running dataSources \<Rightarrow>
          Returns (None, l\<lparr>actor := Running (sort_Slice (dataSources @ [src]))\<rparr>)
      | _ \<Rightarrow> Blocks l)"

definition DataSources :: "LocalSystem \<Rightarrow> service list outcome" where
  "DataSources l =
     (case actor l of Running dataSources \<Rightarrow> Returns dataSources | _ \<Rightarrow> Blocks l)"

definition GraphDatabases :: "LocalSystem \<Rightarrow> Graph list" where
  "GraphDatabases l = graphs l"

text \<open>
  \<^verbatim>\<open>Shutdown\<close>. Closing a closed channel panics in Go.
\<close>

definition Shutdown :: "LocalSystem \<Rightarrow> (error option \<times> LocalSystem) outcome" where
  "Shutdown l =
     (if doneAlreadyClosed l then Returns (None, l)
      else
        (let l = l\<lparr>doneAlreadyClosed := True\<rparr>
         in case DataSources l of
              Blocks b \<Rightarrow> Blocks b
            | Panics p \<Rightarrow> Panics p
            | Returns srcs \<Rightarrow>
                (let l = l\<lparr>events := events l @ map SourceStop srcs\<rparr>
                 in if done_closed l then Panics CloseOfClosedChannel
                    else
                      (let l = l\<lparr>done_closed := True, actor := Returned,
                                 events := events l @ [DoneClosed]\<rparr>;
                           l = l\<lparr>events := events l @ map GraphClose (GraphDatabases l)\<rparr>;
                           l = l\<lparr>events := events l @ [PoolStop (pool l)]\<rparr>
                       in Returns (None, l)))))"

text \<open>
  \<^verbatim>\<open>setupGraphDBs\<close>: its loop over \<^verbatim>\<open>dbs\<close>, then the function.
  \<open>LocalDatabaseSettings\<close> is \<^verbatim>\<open>cfg.LocalDatabaseSettings\<close>. In the branch
  \<^verbatim>\<open>g == nil\<close> the message is built from \<^verbatim>\<open>g.String()\<close>, that is, from
  \<^verbatim>\<open>String\<close> with the nil receiver.
\<close>

fun graphs_loop ::
  "graph_pkg \<Rightarrow> Database list \<Rightarrow> LocalSystem \<Rightarrow> (error option \<times> LocalSystem) outcome" where
  "graphs_loop G [] l = Returns (None, l)"
| "graphs_loop G (db # dbs) l =
     (case NewCayleyGraph G db of
        None \<Rightarrow>
          Returns (Some (Error (''System: Failed to create the '' @ System db @ '' graph'')), l)
      | Some cayley \<Rightarrow>
          (case NewGraph G cayley of
             None \<Rightarrow>
               (case Graph_String G None of
                  Inl p \<Rightarrow> Panics p
                | Inr s \<Rightarrow>
                    Returns (Some (Error (''System: Failed to create the '' @ s @ '' graph'')), l))
           | Some g \<Rightarrow>
               graphs_loop G dbs
                 (l\<lparr>cache := ASNCacheFill G g (cache l), graphs := graphs l @ [g]\<rparr>)))"

definition setupGraphDBs ::
  "graph_pkg \<Rightarrow> (Database list \<Rightarrow> Database option) \<Rightarrow> LocalSystem
     \<Rightarrow> (error option \<times> LocalSystem) outcome" where
  "setupGraphDBs G LocalDatabaseSettings l =
     (let dbs = (case LocalDatabaseSettings (GraphDBs (cfg l)) of
                   Some db \<Rightarrow> [db]
                 | None \<Rightarrow> []);
          dbs = dbs @ GraphDBs (cfg l)
      in graphs_loop G dbs l)"

subsection \<open>Construction\<close>

text \<open>
  What \<^verbatim>\<open>NewLocalSystem\<close> takes from outside local.go: the outcome of
  \<^verbatim>\<open>c.CheckSettings()\<close>, the value \<open>env_max\<close> of
  \<^verbatim>\<open>int(float64(limits.GetFileLimit()) * 0.7)\<close> (a floating-point computation, taken
  as given), the packages, the schedule of the probe goroutines, the fetched ranges, and
  the file system.
\<close>

record env =
  env_CheckSettings :: "Config \<Rightarrow> error option"
  env_max :: int
  env_resolvers :: resolvers_pkg
  env_config :: config_pkg
  env_graph :: graph_pkg
  env_SplitHostPort_err :: "string \<Rightarrow> bool"
  env_sched :: "nat list"
  env_GetIP2ASNData :: "error + IPRange list"
  env_Range2CIDR :: "IP \<Rightarrow> IP \<Rightarrow> IPNet option"
  env_OutputDirectory :: "string \<Rightarrow> string"
  env_MkdirAll :: "string \<Rightarrow> error option"
  env_LocalDatabaseSettings :: "Database list \<Rightarrow> Database option"

text \<open>
  The failure path \<^verbatim>\<open>_ = sys.Shutdown(); return nil, err\<close>.
\<close>

definition abort :: "LocalSystem \<Rightarrow> error \<Rightarrow> (error + LocalSystem) outcome" where
  "abort sys err =
     (case Shutdown sys of
        Returns r \<Rightarrow> Returns (Inl err)
      | Blocks b \<Rightarrow> Blocks b
      | Panics p \<Rightarrow> Panics p)"

text \<open>
  \<^verbatim>\<open>NewLocalSystem\<close>. The actor is started by the last statement,
  \<^verbatim>\<open>go sys.manageDataSources()\<close>.
\<close>

definition NewLocalSystem :: "env \<Rightarrow> Config \<Rightarrow> (error + LocalSystem) outcome" where
  "NewLocalSystem E c =
     (case env_CheckSettings E c of
        Some err \<Rightarrow> Returns (Inl err)
      | None \<Rightarrow>
          (let mx = env_max E
           in case (if length (Resolvers c) = 0
                    then (case publicResolverSetup (env_resolvers E) (env_config E)
                                 (env_SplitHostPort_err E) (env_sched E) c mx of
                            (c', pr, p) \<Rightarrow> Inr (c', map ResolverStop (stopped pr), p))
                    else (case customResolverSetup (env_resolvers E)
                                 (DefaultQueriesPerBaselineResolver (env_config E)) c mx of
                            Inl pn \<Rightarrow> Inl pn
                          | Inr (c', trusted, p) \<Rightarrow> Inr (c', [], p))) of
                Inl pn \<Rightarrow> Panics pn
              | Inr (c', evs, None) \<Rightarrow>
                  Returns (Inl (Error ''The system was unable to build the pool of resolvers''))
              | Inr (c', evs, Some p) \<Rightarrow>
                  (let sys = \<lparr>cfg = c', pool = p, graphs = [], cache = Map.empty,
                              done_closed = False, doneAlreadyClosed = False,
                              actor = NotStarted, events = evs\<rparr>
                   in case loadCacheData (env_GetIP2ASNData E) (env_Range2CIDR E) (cache sys) of
                        (Some err, ca) \<Rightarrow> abort (sys\<lparr>cache := ca\<rparr>) err
                      | (None, ca) \<Rightarrow>
                          (let sys = sys\<lparr>cache := ca\<rparr>
                           in case setupOutputDirectory
                                     (env_OutputDirectory E (Dir (cfg sys))) (env_MkdirAll E) of
                                Some err \<Rightarrow> abort sys err
                              | None \<Rightarrow>
                                  (case setupGraphDBs (env_graph E)
                                          (env_LocalDatabaseSettings E) sys of
                                     Returns (Some err, sys') \<Rightarrow> abort sys' err
                                   | Returns (None, sys') \<Rightarrow>
                                       Returns (Inr (sys'\<lparr>actor := Running []\<rparr>))
                                   | Blocks b \<Rightarrow> Blocks b
                                   | Panics pn \<Rightarrow> Panics pn)))))"

section \<open>Properties\<close>

subsection \<open>The registry stays sorted\<close>

lemma sorted_sort_Slice: "sorted (map srv_String (sort_Slice ds))"
  by (simp add: sort_Slice_def)

lemma manageDataSources_sorted:
  "sorted (map srv_String ds) \<Longrightarrow> r \<in> set (manageDataSources ds ms)
     \<Longrightarrow> sorted (map srv_String r)"
proof (induction ds ms rule: manageDataSources.induct)
  case (3 dataSources add ms)
  then show ?case by (simp add: sorted_sort_Slice)
qed auto

lemma mset_sort_Slice: "mset (sort_Slice ds) = mset ds"
  by (simp add: sort_Slice_def)

lemma manageDataSources_reply:
  "OnDone \<notin> set pre \<Longrightarrow>
     \<exists>r. manageDataSources ds (pre @ OnAllSources # post)
            = manageDataSources ds pre @ r # manageDataSources r post
         \<and> mset r = mset ds + mset (added pre)"
proof (induction ds pre rule: manageDataSources.induct)
  case (1 dataSources)
  then show ?case by simp
next
  case (2 dataSources ms)
  then show ?case by simp
next
  case (3 dataSources add ms)
  then have "\<exists>r. manageDataSources (sort_Slice (dataSources @ [add])) (ms @ OnAllSources # post)
            = manageDataSources (sort_Slice (dataSources @ [add])) ms @ r # manageDataSources r post
         \<and> mset r = mset (sort_Slice (dataSources @ [add])) + mset (added ms)"
    by simp
  then show ?case by (auto simp: mset_sort_Slice)
next
  case (4 dataSources ms)
  then have "\<exists>r. manageDataSources dataSources (ms @ OnAllSources # post)
            = manageDataSources dataSources ms @ r # manageDataSources r post
         \<and> mset r = mset dataSources + mset (added ms)"
    by simp
  then show ?case by auto
qed

lemma sorted_names_unique:
  assumes "mset r = mset xs" and "sorted (map srv_String r)"
  shows "map srv_String r = sort (map srv_String xs)"
proof -
  have "mset (map srv_String r) = mset (map srv_String xs)" using assms(1) by simp
  then show ?thesis using assms(2) by (metis properties_for_sort)
qed

lemma manageDataSources_after_done:
  "manageDataSources ds (pre @ OnDone # post) = manageDataSources ds pre"
  by (induction ds pre rule: manageDataSources.induct) auto

text \<open>
  C6. Whatever messages the registry actor has processed, every list it sends in reply
  to a query is sorted in ascending order by service name (equal names are allowed:
  the order is \<open>\<le>\<close>). A query that arrives before the done signal is answered, and
  its reply holds exactly the sources added before it, each as often as it was added:
  the names returned are the sorted names of the sources added. Adding sources named
  "b", "a", "c" in that order and then querying returns them in the order "a", "b",
  "c".
\<close>

theorem registry_sorted_by_name:
  "(\<forall>r \<in> set (manageDataSources [] ms). sorted (map srv_String r))
   \<and> (\<forall>pre post. ms = pre @ OnAllSources # post \<and> OnDone \<notin> set pre
         \<longrightarrow> (\<exists>r. manageDataSources [] ms
                      = manageDataSources [] pre @ r # manageDataSources r post
                  \<and> mset r = mset (added pre)
                  \<and> map srv_String r = sort (map srv_String (added pre))))
   \<and> map (map srv_String)
       (manageDataSources []
          [OnAddSource (Service ''b'' 0), OnAddSource (Service ''a'' 1),
           OnAddSource (Service ''c'' 2), OnAllSources])
     = [[''a'', ''b'', ''c'']]"
proof (intro conjI allI impI)
  show "\<forall>r \<in> set (manageDataSources [] ms). sorted (map srv_String r)"
    using manageDataSources_sorted [of "[]" _ ms] by simp
next
  fix pre post
  assume a: "ms = pre @ OnAllSources # post \<and> OnDone \<notin> set pre"
  then obtain r where r: "manageDataSources [] (pre @ OnAllSources # post)
            = manageDataSources [] pre @ r # manageDataSources r post"
      "mset r = mset [] + mset (added pre)"
    using manageDataSources_reply [of pre "[]" post] by blast
  have "r \<in> set (manageDataSources [] ms)" using a r(1) by simp
  then have "sorted (map srv_String r)"
    using manageDataSources_sorted [of "[]" r ms] by simp
  moreover have m: "mset r = mset (added pre)" using r(2) by simp
  ultimately have "map srv_String r = sort (map srv_String (added pre))"
    using sorted_names_unique by blast
  with a r(1) m
  show "\<exists>r. manageDataSources [] ms
                      = manageDataSources [] pre @ r # manageDataSources r post
                  \<and> mset r = mset (added pre)
                  \<and> map srv_String r = sort (map srv_String (added pre))"
    by blast
next
  show "map (map srv_String)
       (manageDataSources []
          [OnAddSource (Service ''b'' 0), OnAddSource (Service ''a'' 1),
           OnAddSource (Service ''c'' 2), OnAllSources])
     = [[''a'', ''b'', ''c'']]"
    by (simp add: sort_Slice_def)
qed

theorem registry_sorted_by_name_witness:
  "manageDataSources []
     ([OnAddSource (Service ''b'' 5), OnAddSource (Service ''a'' 7),
       OnAddSource (Service ''c'' 1), OnAddSource (Service ''c'' 2)]
      @ OnAllSources # [OnAddSource (Service ''a'' 3), OnAllSources])
     = [[Service ''a'' 7, Service ''b'' 5, Service ''c'' 1, Service ''c'' 2],
        [Service ''a'' 7, Service ''a'' 3, Service ''b'' 5, Service ''c'' 1,
         Service ''c'' 2]]
   \<and> OnDone \<notin> set [OnAddSource (Service ''b'' 5), OnAddSource (Service ''a'' 7),
                      OnAddSource (Service ''c'' 1), OnAddSource (Service ''c'' 2)]
   \<and> mset [Service ''a'' 7, Service ''b'' 5, Service ''c'' 1, Service ''c'' 2]
       = mset (added [OnAddSource (Service ''b'' 5), OnAddSource (Service ''a'' 7),
                      OnAddSource (Service ''c'' 1), OnAddSource (Service ''c'' 2)])
   \<and> sorted (map srv_String
               [Service ''a'' 7, Service ''b'' 5, Service ''c'' 1, Service ''c'' 2])"
proof -
  let ?pre = "[OnAddSource (Service ''b'' 5), OnAddSource (Service ''a'' 7),
               OnAddSource (Service ''c'' 1), OnAddSource (Service ''c'' 2)]"
  let ?post = "[OnAddSource (Service ''a'' 3), OnAllSources]"
  have nd: "OnDone \<notin> set ?pre" by simp
  have ev: "manageDataSources [] (?pre @ OnAllSources # ?post)
     = [[Service ''a'' 7, Service ''b'' 5, Service ''c'' 1, Service ''c'' 2],
        [Service ''a'' 7, Service ''a'' 3, Service ''b'' 5, Service ''c'' 1,
         Service ''c'' 2]]"
    by (simp add: sort_Slice_def)
  from registry_sorted_by_name [of "?pre @ OnAllSources # ?post"]
  have "\<exists>r. manageDataSources [] (?pre @ OnAllSources # ?post)
                      = manageDataSources [] ?pre @ r # manageDataSources r ?post
                  \<and> mset r = mset (added ?pre)
                  \<and> map srv_String r = sort (map srv_String (added ?pre))"
    using nd by blast
  then obtain r where r: "manageDataSources [] (?pre @ OnAllSources # ?post)
                      = manageDataSources [] ?pre @ r # manageDataSources r ?post"
      "mset r = mset (added ?pre)" by blast
  have "manageDataSources [] ?pre = []" by simp
  with r(1) ev have "r = [Service ''a'' 7, Service ''b'' 5, Service ''c'' 1, Service ''c'' 2]"
    by simp
  with r(2) have ms: "mset [Service ''a'' 7, Service ''b'' 5, Service ''c'' 1, Service ''c'' 2]
       = mset (added ?pre)" by simp
  have so: "sorted (map srv_String
               [Service ''a'' 7, Service ''b'' 5, Service ''c'' 1, Service ''c'' 2])"
    by simp
  from ev nd ms so show ?thesis by (intro conjI)
qed

subsection \<open>The output directory step never fails\<close>

text \<open>
  C8. \<^verbatim>\<open>setupOutputDirectory\<close> returns no error for every configuration: with an
  empty path, with a directory that is created, and with a creation that fails.
\<close>

theorem setupOutputDirectory_nil: "setupOutputDirectory path MkdirAll = None"
  by (simp add: setupOutputDirectory_def split: option.split)

subsection \<open>Rates of the trusted resolvers\<close>

lemma sdiv_mult_self:
  fixes a b :: int
  assumes "b \<noteq> 0"
  shows "(b * a) sdiv b = a"
proof -
  have "sgn b * sgn b = 1" using assms by (simp add: sgn_if)
  moreover have "sgn a * \<bar>a\<bar> = a" by (simp add: sgn_if)
  ultimately have "sgn b * sgn a * sgn b * \<bar>a\<bar> = a"
    by (metis mult.assoc mult.commute mult.left_neutral)
  then show ?thesis using assms by (simp add: signed_divide_int_def abs_mult sgn_mult)
qed

lemma rate_map_filter:
  "r \<in> set (List.map_filter (\<lambda>addr. NewBaseResolver R addr q) as) \<Longrightarrow> res_rate r = q"
  by (auto simp: List.map_filter_def NewBaseResolver_def split: if_splits)

text \<open>
  C3. In trusted-list mode let \<open>num\<close> be the smaller of the number of configured
  resolvers and the maximum \<open>mx\<close>. The default rate \<open>D\<close> and \<open>num * D\<close> are values of
  Go's int (no overflow). If \<open>num\<close> is not zero the function returns, and: an unset
  budget (zero) becomes \<open>num * D\<close> and every constructed resolver has rate \<open>D\<close>; a
  budget that is set and below \<open>num\<close> becomes exactly \<open>num\<close>; a budget that is set
  and not below \<open>num\<close> is kept; nothing else of the configuration changes; in every
  case each constructed resolver's rate is the integer quotient of that budget by
  \<open>num\<close>, the resolvers are those constructed at that rate for the configured
  addresses, and the pool is composed of them. If \<open>num\<close> is zero the division panics
  and no resolver is constructed.
\<close>

theorem customResolverSetup_rate:
  assumes D: "int64 D = D"
    and nD: "int64 (min (int (length (Resolvers conf))) mx * D)
               = min (int (length (Resolvers conf))) mx * D"
  shows "(min (int (length (Resolvers conf))) mx = 0
            \<longrightarrow> customResolverSetup R D conf mx = Inl DivideByZero)
       \<and> (min (int (length (Resolvers conf))) mx \<noteq> 0
            \<longrightarrow> (\<exists>cfg' trusted pool.
                  customResolverSetup R D conf mx = Inr (cfg', trusted, pool)
                  \<and> (MaxDNSQueries conf = 0
                       \<longrightarrow> MaxDNSQueries cfg' = min (int (length (Resolvers conf))) mx * D
                          \<and> (\<forall>r \<in> set trusted. res_rate r = D))
                  \<and> (MaxDNSQueries conf \<noteq> 0
                         \<and> MaxDNSQueries conf < min (int (length (Resolvers conf))) mx
                       \<longrightarrow> MaxDNSQueries cfg' = min (int (length (Resolvers conf))) mx)
                  \<and> (MaxDNSQueries conf \<noteq> 0
                         \<and> \<not> MaxDNSQueries conf < min (int (length (Resolvers conf))) mx
                       \<longrightarrow> MaxDNSQueries cfg' = MaxDNSQueries conf)
                  \<and> cfg' = conf\<lparr>MaxDNSQueries := MaxDNSQueries cfg'\<rparr>
                  \<and> (\<forall>r \<in> set trusted.
                        quo (MaxDNSQueries cfg') (min (int (length (Resolvers conf))) mx)
                          = Inr (res_rate r))
                  \<and> (\<exists>q. quo (MaxDNSQueries cfg') (min (int (length (Resolvers conf))) mx)
                            = Inr q
                         \<and> trusted = List.map_filter (\<lambda>addr. NewBaseResolver R addr q)
                                        (Resolvers conf)
                         \<and> pool = NewResolverPool R trusted 2 None 1)))"
proof -
  define num where "num = min (int (length (Resolvers conf))) mx"
  have num: "(if int (length (Resolvers conf)) > mx then mx else int (length (Resolvers conf))) = num"
    by (simp add: num_def min_def)
  have nD': "int64 (num * D) = num * D" using nD by (simp add: num_def)
  have q: "num \<noteq> 0 \<Longrightarrow> quo (num * D) num = Inr D"
    using D by (simp add: quo_def sdiv_mult_self)
  show ?thesis
    unfolding num_def [symmetric]
    using q nD'
    by (auto simp: customResolverSetup_def Let_def num quo_def dest!: rate_map_filter)
qed

theorem customResolverSetup_rate_witness:
  "int64 50 = 50
   \<and> int64 (min (int (length [''8.8.8.8'', ''1.1.1.1''])) 7000 * 50) = 100
   \<and> customResolverSetup
       \<lparr>base_ok = \<lambda>a r. True, pool_ok = \<lambda>rs b. True, ClientSubnetCheck_err = \<lambda>a. False\<rparr>
       50
       \<lparr>Resolvers = [''8.8.8.8'', ''1.1.1.1''], MaxDNSQueries = 1000, Dir = [], GraphDBs = []\<rparr>
       7000
     = Inr (\<lparr>Resolvers = [''8.8.8.8'', ''1.1.1.1''], MaxDNSQueries = 1000, Dir = [],
              GraphDBs = []\<rparr>,
            [BaseResolver ''8.8.8.8'' 500, BaseResolver ''1.1.1.1'' 500],
            Some (ResolverPool [BaseResolver ''8.8.8.8'' 500, BaseResolver ''1.1.1.1'' 500]
                    2 None 1))
   \<and> customResolverSetup
       \<lparr>base_ok = \<lambda>a r. True, pool_ok = \<lambda>rs b. True, ClientSubnetCheck_err = \<lambda>a. False\<rparr>
       50
       \<lparr>Resolvers = [''8.8.8.8'', ''1.1.1.1''], MaxDNSQueries = 0, Dir = [], GraphDBs = []\<rparr>
       7000
     = Inr (\<lparr>Resolvers = [''8.8.8.8'', ''1.1.1.1''], MaxDNSQueries = 100, Dir = [],
              GraphDBs = []\<rparr>,
            [BaseResolver ''8.8.8.8'' 50, BaseResolver ''1.1.1.1'' 50],
            Some (ResolverPool [BaseResolver ''8.8.8.8'' 50, BaseResolver ''1.1.1.1'' 50]
                    2 None 1))"
  using customResolverSetup_rate
    [of 50 "\<lparr>Resolvers = [''8.8.8.8'', ''1.1.1.1''], MaxDNSQueries = 1000, Dir = [],
               GraphDBs = []\<rparr>" 7000
        "\<lparr>base_ok = \<lambda>a r. True, pool_ok = \<lambda>rs b. True,
          ClientSubnetCheck_err = \<lambda>a. False\<rparr>"]
  by (simp add: int64_def customResolverSetup_def quo_def NewBaseResolver_def
      NewResolverPool_def List.map_filter_def Let_def)

text \<open>
  C10. One trusted resolver and a maximum of zero (a soft file-descriptor limit of 1
  gives \<^verbatim>\<open>int(0.7)\<close>, which is 0): \<open>num\<close> is 0 and the rate computation divides by
  zero, whatever the budget, the default rate and the resolver constructors.
\<close>

theorem customResolverSetup_divides_by_zero:
  "customResolverSetup R D
     \<lparr>Resolvers = [''8.8.8.8''], MaxDNSQueries = budget, Dir = [], GraphDBs = []\<rparr> 0
   = Inl DivideByZero"
  by (simp add: customResolverSetup_def quo_def Let_def)


subsection \<open>Probing: what is sent and what is received\<close>

lemma length_concat_update:
  assumes "i < length pending" and "pending ! i = m # ms"
  shows "Suc (length (concat (pending[i := ms]))) = length (concat pending)"
proof -
  have p: "pending = take i pending @ (m # ms) # drop (Suc i) pending"
    using assms by (metis id_take_nth_drop)
  have u: "pending[i := ms] = take i pending @ ms # drop (Suc i) pending"
    using assms by (simp add: upd_conv_take_nth_drop)
  have "length (concat pending)
          = length (concat (take i pending @ (m # ms) # drop (Suc i) pending))"
    using p by simp
  then show ?thesis unfolding u by simp
qed

lemma length_deliver: "length (deliver pending sched) = length (concat pending)"
proof (induction pending sched rule: deliver.induct)
  case (1 pending)
  then show ?case by simp
next
  case (2 pending i sched)
  show ?case
  proof (cases "i < length pending")
    case False
    with 2 show ?thesis by simp
  next
    case True
    show ?thesis
    proof (cases "pending ! i")
      case Nil
      with True 2 show ?thesis by simp
    next
      case (Cons m ms)
      with True 2 length_concat_update [OF True Cons] show ?thesis by simp
    qed
  qed
qed

lemma probe_sends: "1 \<le> length (probe R rate ip)"
  by (simp add: probe_def)

lemma length_concat_ge:
  "(\<And>x. x \<in> set xs \<Longrightarrow> 1 \<le> length x) \<Longrightarrow> length xs \<le> length (concat xs)"
proof (induction xs)
  case Nil
  then show ?case by simp
next
  case (Cons a xs)
  have "1 \<le> length a" using Cons.prems by simp
  moreover have "length xs \<le> length (concat xs)" using Cons by simp
  ultimately show ?case by simp
qed

lemma drain_count:
  "fst st = int (length (fst (snd st)))
     \<Longrightarrow> fst (drain mx ms st) = int (length (fst (snd (drain mx ms st))))
         \<and> fst (drain mx ms st) \<le> max (fst st) mx"
proof (induction mx ms st rule: drain.induct)
  case (1 mx st)
  then show ?case by simp
next
  case (2 mx rs st)
  then show ?case by simp
next
  case (3 mx r rs cnt resolvers stopped)
  show ?case
  proof (cases "cnt < mx")
    case True
    with 3 show ?thesis by simp
  next
    case False
    with 3 show ?thesis by simp
  qed
qed

lemma setupResolvers_cap:
  "int (length (accepted (setupResolvers R sp sched addrs mx rate))) \<le> max 0 mx"
proof (cases "length addrs \<le> 0")
  case True
  then show ?thesis by (simp add: setupResolvers_def)
next
  case False
  define ms where "ms = take (length addrs) (deliver (map (\<lambda>addr. probe R rate
                            (if sp addr then JoinHostPort addr ''53'' else addr))
                       addrs) sched)"
  have "int (length (fst (snd (drain mx ms (0, [], []))))) \<le> max 0 mx"
    using drain_count [of "(0, [], [])" mx ms] by simp
  with False show ?thesis
    by (auto simp: setupResolvers_def Let_def ms_def split: prod.split)
qed


lemma consumer_fed:
  "length addrs \<le> length (deliver (map (\<lambda>addr. probe R rate (f addr)) addrs) sched)"
proof -
  have "length (map (\<lambda>addr. probe R rate (f addr)) addrs)
          \<le> length (concat (map (\<lambda>addr. probe R rate (f addr)) addrs))"
    by (rule length_concat_ge) (auto simp: probe_def)
  then show ?thesis by (simp add: length_deliver)
qed

text \<open>
  C1. A probe whose check succeeds and whose resolver is constructed sends two values,
  the handle and then nil, while the loop receives one value per address: with one such
  address a value stays unread in the channel, and with eleven of them one send blocks
  for ever (the channel holds ten).
\<close>

theorem probe_reports_twice:
  "probe \<lparr>base_ok = \<lambda>a r. True, pool_ok = \<lambda>rs b. True, ClientSubnetCheck_err = \<lambda>a. False\<rparr>
     5 ''8.8.8.8:53''
     = [Some (BaseResolver ''8.8.8.8:53'' 5), None]
   \<and> setupResolvers
       \<lparr>base_ok = \<lambda>a r. True, pool_ok = \<lambda>rs b. True, ClientSubnetCheck_err = \<lambda>a. False\<rparr>
       (\<lambda>a. False) [] [''8.8.8.8:53''] 7000 5
     = \<lparr>accepted = [BaseResolver ''8.8.8.8:53'' 5], stopped = [], unread = [None]\<rparr>
   \<and> blocked_sends
       (setupResolvers
          \<lparr>base_ok = \<lambda>a r. True, pool_ok = \<lambda>rs b. True, ClientSubnetCheck_err = \<lambda>a. False\<rparr>
          (\<lambda>a. False) []
          [''10.0.0.1:53'', ''10.0.0.2:53'', ''10.0.0.3:53'', ''10.0.0.4:53'',
           ''10.0.0.5:53'', ''10.0.0.6:53'', ''10.0.0.7:53'', ''10.0.0.8:53'',
           ''10.0.0.9:53'', ''10.0.0.10:53'', ''10.0.0.11:53'']
          7000 5)
     = 1"
  by (simp add: setupResolvers_def probe_def NewBaseResolver_def Let_def blocked_sends_def)

text \<open>
  C4. Two addresses, both probes succeed, a maximum of one, and the first goroutine
  sends both of its values before the second: the loop receives the first handle and the
  first nil, accepts one handle, and never receives the second handle, which is neither
  accepted nor stopped.
\<close>

theorem surplus_handle_not_stopped:
  "setupResolvers
     \<lparr>base_ok = \<lambda>a r. True, pool_ok = \<lambda>rs b. True, ClientSubnetCheck_err = \<lambda>a. False\<rparr>
     (\<lambda>a. False) [0, 0, 1, 1] [''8.8.8.8:53'', ''1.1.1.1:53''] 1 5
   = \<lparr>accepted = [BaseResolver ''8.8.8.8:53'' 5], stopped = [],
       unread = [Some (BaseResolver ''1.1.1.1:53'' 5), None]\<rparr>"
  by (simp add: setupResolvers_def probe_def NewBaseResolver_def Let_def)


subsection \<open>Loading the ASN cache\<close>















subsection \<open>Shutdown and construction\<close>

lemma setupOutputDirectory_case:
  "(case setupOutputDirectory path mk of Some err \<Rightarrow> a err | None \<Rightarrow> b) = b"
  by (simp add: setupOutputDirectory_def split: option.split)

lemma Shutdown_repeated: "doneAlreadyClosed l \<Longrightarrow> Shutdown l = Returns (None, l)"
  by (simp add: Shutdown_def)

lemma Shutdown_blocks_before_actor:
  "actor l = NotStarted \<Longrightarrow> \<not> doneAlreadyClosed l
     \<Longrightarrow> Shutdown l = Blocks (l\<lparr>doneAlreadyClosed := True\<rparr>)"
  by (simp add: Shutdown_def DataSources_def)

lemma abort_blocks_before_actor:
  "actor l = NotStarted \<Longrightarrow> \<not> doneAlreadyClosed l
     \<Longrightarrow> abort l err = Blocks (l\<lparr>doneAlreadyClosed := True\<rparr>)"
  by (simp add: abort_def Shutdown_blocks_before_actor)

lemma graphs_loop_keeps:
  "graphs_loop G dbs l = Returns (e, l')
     \<Longrightarrow> actor l' = actor l \<and> doneAlreadyClosed l' = doneAlreadyClosed l
         \<and> done_closed l' = done_closed l \<and> events l' = events l"
proof (induction G dbs l rule: graphs_loop.induct)
  case (1 G l)
  then show ?case by simp
next
  case (2 G db dbs l)
  show ?case
  proof (cases "NewCayleyGraph G db")
    case None
    with 2 show ?thesis by simp
  next
    case (Some cayley)
    note c = Some
    show ?thesis
    proof (cases "NewGraph G cayley")
      case None
      with c 2 show ?thesis by (auto split: sum.splits)
    next
      case (Some g)
      with c 2 show ?thesis by simp
    qed
  qed
qed

lemma setupGraphDBs_keeps:
  "setupGraphDBs G ld l = Returns (e, l')
     \<Longrightarrow> actor l' = actor l \<and> doneAlreadyClosed l' = doneAlreadyClosed l
         \<and> done_closed l' = done_closed l \<and> events l' = events l"
  unfolding setupGraphDBs_def Let_def by (rule graphs_loop_keeps)

lemma abort_never_returns_system: "abort l err \<noteq> Returns (Inr l')"
  by (simp add: abort_def split: outcome.splits)

lemma AddSource_keeps:
  "AddSource l src = Returns (e, l')
     \<Longrightarrow> (\<exists>ds. actor l = Running ds \<and> actor l' = Running (sort_Slice (ds @ [src])))
         \<and> doneAlreadyClosed l' = doneAlreadyClosed l \<and> done_closed l' = done_closed l"
  by (auto simp: AddSource_def split: actor.splits)

lemma NewLocalSystem_ready:
  assumes "NewLocalSystem E c = Returns (Inr l)"
  shows "actor l = Running [] \<and> \<not> doneAlreadyClosed l \<and> \<not> done_closed l"
  using assms
  by (auto simp: NewLocalSystem_def Let_def abort_never_returns_system
      split: option.splits sum.splits prod.splits outcome.splits if_splits
      dest!: setupGraphDBs_keeps)

lemma abort_returns:
  "abort l err = Returns r \<Longrightarrow> actor l \<noteq> NotStarted \<or> doneAlreadyClosed l"
  using abort_blocks_before_actor [of l err] by auto

lemma NewLocalSystem_late_failure_blocks:
  assumes "NewLocalSystem E c = Returns (Inl err)"
  shows "env_CheckSettings E c = Some err
         \<or> err = Error ''The system was unable to build the pool of resolvers''"
  using assms
  by (auto simp: NewLocalSystem_def Let_def
      split: option.splits sum.splits prod.splits outcome.splits if_splits
      dest!: setupGraphDBs_keeps abort_returns)

text \<open>
  C7. On a system whose registry actor runs and that has not been shut down, the first
  \<^verbatim>\<open>Shutdown\<close> returns nil after stopping every registered data source, closing the
  done signal, closing every graph and stopping the pool, in that order; a further call
  returns nil and leaves the system, its trace included, as it is, so nothing is stopped
  or closed a second time.
\<close>

theorem Shutdown_idempotent:
  assumes "actor l = Running ds" and "\<not> doneAlreadyClosed l" and "\<not> done_closed l"
  shows "\<exists>l'. Shutdown l = Returns (None, l')
           \<and> events l' = events l @ map SourceStop ds @ [DoneClosed]
                          @ map GraphClose (graphs l) @ [PoolStop (pool l)]
           \<and> Shutdown l' = Returns (None, l')"
  using assms by (simp add: Shutdown_def DataSources_def GraphDatabases_def Let_def)

theorem Shutdown_idempotent_witness:
  "Shutdown
     \<lparr>cfg = \<lparr>Resolvers = [''8.8.8.8''], MaxDNSQueries = 100, Dir = [], GraphDBs = []\<rparr>,
      pool = ResolverPool [BaseResolver ''8.8.8.8'' 100] 2 None 1,
      graphs = [Graph (CayleyGraph \<lparr>System = ''local'', URL = [], Options = []\<rparr>)],
      cache = Map.empty, done_closed = False, doneAlreadyClosed = False,
      actor = Running [Service ''a'' 1, Service ''b'' 0], events = []\<rparr>
   = Returns (None,
       \<lparr>cfg = \<lparr>Resolvers = [''8.8.8.8''], MaxDNSQueries = 100, Dir = [], GraphDBs = []\<rparr>,
        pool = ResolverPool [BaseResolver ''8.8.8.8'' 100] 2 None 1,
        graphs = [Graph (CayleyGraph \<lparr>System = ''local'', URL = [], Options = []\<rparr>)],
        cache = Map.empty, done_closed = True, doneAlreadyClosed = True,
        actor = Returned,
        events = [SourceStop (Service ''a'' 1), SourceStop (Service ''b'' 0), DoneClosed,
                  GraphClose (Graph (CayleyGraph \<lparr>System = ''local'', URL = [], Options = []\<rparr>)),
                  PoolStop (ResolverPool [BaseResolver ''8.8.8.8'' 100] 2 None 1)]\<rparr>)"
  using Shutdown_idempotent
    [of "\<lparr>cfg = \<lparr>Resolvers = [''8.8.8.8''], MaxDNSQueries = 100, Dir = [], GraphDBs = []\<rparr>,
      pool = ResolverPool [BaseResolver ''8.8.8.8'' 100] 2 None 1,
      graphs = [Graph (CayleyGraph \<lparr>System = ''local'', URL = [], Options = []\<rparr>)],
      cache = Map.empty, done_closed = False, doneAlreadyClosed = False,
      actor = Running [Service ''a'' 1, Service ''b'' 0], events = []\<rparr>"
        "[Service ''a'' 1, Service ''b'' 0]"]
  by (simp add: Shutdown_def DataSources_def GraphDatabases_def Let_def)

text \<open>
  C2. A configuration with one trusted resolver, for which the pool is built. When the
  ASN dataset cannot be fetched, and when the graph back end cannot be created,
  \<^verbatim>\<open>NewLocalSystem\<close> calls \<^verbatim>\<open>Shutdown\<close> before the registry actor is started:
  \<^verbatim>\<open>Shutdown\<close> sets its flag and blocks in \<^verbatim>\<open>DataSources\<close>, nothing is released,
  and the error is never returned.
\<close>

theorem NewLocalSystem_failure_blocks:
  "NewLocalSystem
     \<lparr>env_CheckSettings = \<lambda>c. None, env_max = 7000,
      env_resolvers = \<lparr>base_ok = \<lambda>a r. True, pool_ok = \<lambda>rs b. True,
                        ClientSubnetCheck_err = \<lambda>a. False\<rparr>,
      env_config = C, env_graph = G, env_SplitHostPort_err = sp, env_sched = sc,
      env_GetIP2ASNData = Inl (Error ''no data''), env_Range2CIDR = rc,
      env_OutputDirectory = od, env_MkdirAll = mk, env_LocalDatabaseSettings = ld\<rparr>
     \<lparr>Resolvers = [''8.8.8.8''], MaxDNSQueries = 100, Dir = [], GraphDBs = []\<rparr>
   = Blocks
       \<lparr>cfg = \<lparr>Resolvers = [''8.8.8.8''], MaxDNSQueries = 100, Dir = [], GraphDBs = []\<rparr>,
        pool = ResolverPool [BaseResolver ''8.8.8.8'' 100] 2 None 1,
        graphs = [], cache = Map.empty, done_closed = False, doneAlreadyClosed = True,
        actor = NotStarted, events = []\<rparr>
   \<and> NewLocalSystem
     \<lparr>env_CheckSettings = \<lambda>c. None, env_max = 7000,
      env_resolvers = \<lparr>base_ok = \<lambda>a r. True, pool_ok = \<lambda>rs b. True,
                        ClientSubnetCheck_err = \<lambda>a. False\<rparr>,
      env_config = C,
      env_graph = \<lparr>NewCayleyGraph_ok = \<lambda>db. False, NewGraph_ok = ng, Graph_String = gs,
                    ASNCacheFill = fill\<rparr>,
      env_SplitHostPort_err = sp, env_sched = sc,
      env_GetIP2ASNData = Inr [], env_Range2CIDR = rc,
      env_OutputDirectory = od, env_MkdirAll = mk, env_LocalDatabaseSettings = \<lambda>dbs. None\<rparr>
     \<lparr>Resolvers = [''8.8.8.8''], MaxDNSQueries = 100, Dir = [],
      GraphDBs = [\<lparr>System = ''postgres'', URL = [], Options = []\<rparr>]\<rparr>
   = Blocks
       \<lparr>cfg = \<lparr>Resolvers = [''8.8.8.8''], MaxDNSQueries = 100, Dir = [],
               GraphDBs = [\<lparr>System = ''postgres'', URL = [], Options = []\<rparr>]\<rparr>,
        pool = ResolverPool [BaseResolver ''8.8.8.8'' 100] 2 None 1,
        graphs = [], cache = Map.empty, done_closed = False, doneAlreadyClosed = True,
        actor = NotStarted, events = []\<rparr>"
  by (simp add: NewLocalSystem_def customResolverSetup_def quo_def int64_def Let_def
      NewBaseResolver_def NewResolverPool_def List.map_filter_def loadCacheData_def
      abort_def Shutdown_def DataSources_def setupOutputDirectory_case setupGraphDBs_def
      NewCayleyGraph_def)


end
